theory Spec2Isabelle
  imports Main
begin

section \<open>The declared resources of \<open>bin/cloud-foundation-project.ts\<close>\<close>

text \<open>
  The repository is one TypeScript file: an application entry point followed by the class
  \<open>AleezaStack\<close>, whose constructor creates four constructs in the scope of the stack: a
  bucket, a bucket deployment, a web ACL and a distribution. The embedding keeps the props
  objects as records with the keys the source writes, the library's enumerations as
  datatypes, a reference to an earlier construct as that construct's id, and the scope as
  an explicit state that every \<open>new\<close> extends.
\<close>

subsection \<open>Paths\<close>

text \<open>
  A path is a string with \<open>/\<close> between its segments. \<open>path_join\<close> and \<open>path_normalize\<close>
  are Node's \<open>path.join\<close> and \<open>path.normalize\<close> for POSIX paths: the arguments that are not
  empty are joined with \<open>/\<close>; in the joined path empty and \<open>.\<close> segments are dropped and
  \<open>..\<close> removes the segment before it; a \<open>..\<close> with no segment before it stays in a relative
  path and is dropped in an absolute one; a leading and a trailing \<open>/\<close> are kept.
\<close>

fun split_acc :: "char \<Rightarrow> string \<Rightarrow> string \<Rightarrow> string list" where
  "split_acc c cur [] = [rev cur]"
| "split_acc c cur (x # xs) =
     (if x = c then rev cur # split_acc c [] xs else split_acc c (x # cur) xs)"

definition split_path :: "string \<Rightarrow> string list" where
  "split_path p = split_acc (CHR ''/'') [] p"

fun normalize_segments :: "bool \<Rightarrow> string list \<Rightarrow> string list \<Rightarrow> string list" where
  "normalize_segments allowAboveRoot acc [] = rev acc"
| "normalize_segments allowAboveRoot acc (s # ss) =
     (if s = [] \<or> s = ''.'' then normalize_segments allowAboveRoot acc ss
      else if s = ''..'' then
        (case acc of
           [] \<Rightarrow>
             if allowAboveRoot then normalize_segments allowAboveRoot [''..''] ss
             else normalize_segments allowAboveRoot [] ss
         | a # as \<Rightarrow>
             if a = ''..'' then normalize_segments allowAboveRoot (''..'' # acc) ss
             else normalize_segments allowAboveRoot as ss)
      else normalize_segments allowAboveRoot (s # acc) ss)"

fun join_segments :: "string list \<Rightarrow> string" where
  "join_segments [] = ''.''"
| "join_segments [s] = s"
| "join_segments (s # t # ss) = s @ ''/'' @ join_segments (t # ss)"

definition path_normalize :: "string \<Rightarrow> string" where
  "path_normalize p =
     (case p of
        [] \<Rightarrow> ''.''
      | c # cs \<Rightarrow>
          (let isAbsolute = (c = CHR ''/'');
               trailingSeparator = (last p = CHR ''/'');
               segs = normalize_segments (\<not> isAbsolute) [] (split_path p)
           in if segs = [] then
                (if isAbsolute then ''/'' else if trailingSeparator then ''./'' else ''.'')
              else (if isAbsolute then ''/'' else [])
                   @ join_segments segs
                   @ (if trailingSeparator then ''/'' else [])))"

definition path_join :: "string list \<Rightarrow> string" where
  "path_join args =
     (case filter (\<lambda>a. a \<noteq> []) args of
        [] \<Rightarrow> ''.''
      | a # as \<Rightarrow> path_normalize (join_segments (a # as)))"

definition path_dirname :: "string \<Rightarrow> string" where
  "path_dirname p = join_segments (butlast (split_path p))"

subsection \<open>Bucket\<close>

datatype BucketEncryption = UNENCRYPTED | KMS_MANAGED | S3_MANAGED | KMS | DSSE_MANAGED | DSSE

datatype BucketAccessControl =
  PRIVATE | PUBLIC_READ | PUBLIC_READ_WRITE | AUTHENTICATED_READ | LOG_DELIVERY_WRITE
  | BUCKET_OWNER_READ | BUCKET_OWNER_FULL_CONTROL | AWS_EXEC_READ

datatype RemovalPolicy = DESTROY | RETAIN | SNAPSHOT | RETAIN_ON_UPDATE_OR_DELETE

record BlockPublicAccess =
  blockPublicAcls :: bool
  blockPublicPolicy :: bool
  ignorePublicAcls :: bool
  restrictPublicBuckets :: bool

text \<open>
  Modelled from the spec: the constant \<open>s3.BlockPublicAccess.BLOCK_ALL\<close> belongs to the
  library the source imports; the spec reads it as every public-access-block flag enabled.
\<close>

definition BLOCK_ALL :: BlockPublicAccess where
  "BLOCK_ALL = \<lparr>blockPublicAcls = True, blockPublicPolicy = True,
                ignorePublicAcls = True, restrictPublicBuckets = True\<rparr>"

record BucketProps =
  encryption :: BucketEncryption
  accessControl :: BucketAccessControl
  blockPublicAccess :: BlockPublicAccess
  removalPolicy :: RemovalPolicy
  autoDeleteObjects :: bool
  websiteIndexDocument :: string
  versioned :: bool
  enforceSSL :: bool

subsection \<open>Bucket deployment\<close>

datatype Source = Source_asset string

record BucketDeploymentProps =
  destinationBucket :: string
  sources :: "Source list"
  prune :: bool
  retainOnDelete :: bool

subsection \<open>Web ACL\<close>

datatype DefaultAction = Allow | Block

datatype OverrideAction = OverrideNone | OverrideCount

record VisibilityConfig =
  cloudWatchMetricsEnabled :: bool
  metricName :: string
  sampledRequestsEnabled :: bool

datatype Statement = ManagedRuleGroupStatement (vendorName: string) (groupName: string)

record Rule =
  name :: string
  priority :: int
  statement :: Statement
  overrideAction :: OverrideAction
  ruleVisibilityConfig :: VisibilityConfig

record CfnWebACLProps =
  scope :: string
  defaultAction :: DefaultAction
  visibilityConfig :: VisibilityConfig
  rules :: "Rule list"

subsection \<open>Distribution\<close>

text \<open>
  \<open>enableLogging: true\<close> makes the library create a log bucket of its own under the
  distribution. It is not a construct that the source declares, and the model leaves it out.
\<close>

datatype Origin =
  S3BucketOrigin_withOriginAccessControl string
  | S3Origin string

datatype Token = AttrArn string

record BehaviorOptions =
  origin :: Origin

record DistributionProps =
  defaultRootObject :: string
  defaultBehavior :: BehaviorOptions
  enableLogging :: bool
  webAclId :: Token

subsection \<open>Constructs and their scope\<close>

datatype Construct =
  Bucket string BucketProps
  | BucketDeployment string BucketDeploymentProps
  | CfnWebACL string CfnWebACLProps
  | Distribution string DistributionProps

fun construct_id :: "Construct \<Rightarrow> string" where
  "construct_id (Bucket i p) = i"
| "construct_id (BucketDeployment i p) = i"
| "construct_id (CfnWebACL i p) = i"
| "construct_id (Distribution i p) = i"

typedecl StackProps

record Stack =
  stack_id :: string
  stack_props :: "StackProps option"
  children :: "Construct list"

datatype ConstructError = DuplicateConstructId string

text \<open>\<open>super(scope, id, props)\<close>: a stack with no child yet.\<close>

definition Stack_super :: "string \<Rightarrow> StackProps option \<Rightarrow> Stack" where
  "Stack_super i props = \<lparr>stack_id = i, stack_props = props, children = []\<rparr>"

text \<open>
  \<open>new C(this, id, props)\<close> appends the construct to the children of the scope; the
  construct library throws when the scope already has a child of that id.
\<close>

definition add_child :: "Construct \<Rightarrow> Stack \<Rightarrow> ConstructError + Stack" where
  "add_child c s =
     (if construct_id c \<in> set (map construct_id (children s))
      then Inl (DuplicateConstructId (construct_id c))
      else Inr (s\<lparr>children := children s @ [c]\<rparr>))"

definition and_then :: "'e + 'a \<Rightarrow> ('a \<Rightarrow> 'e + 'b) \<Rightarrow> 'e + 'b" where
  "and_then r f = (case r of Inl e \<Rightarrow> Inl e | Inr x \<Rightarrow> f x)"

subsection \<open>The constructor of \<open>AleezaStack\<close>\<close>

definition website_bucket_props :: BucketProps where
  "website_bucket_props =
     \<lparr>encryption = S3_MANAGED,
      accessControl = PRIVATE,
      blockPublicAccess = BLOCK_ALL,
      removalPolicy = DESTROY,
      autoDeleteObjects = True,
      websiteIndexDocument = ''index.html'',
      versioned = True,
      enforceSSL = True\<rparr>"

definition website_bucket :: Construct where
  "website_bucket = Bucket ''WebsiteBucket'' website_bucket_props"

definition WebsiteFiles_props :: "string \<Rightarrow> BucketDeploymentProps" where
  "WebsiteFiles_props dirname =
     \<lparr>destinationBucket = construct_id website_bucket,
      sources = [Source_asset (path_join [dirname, ''..'', ''dist''])],
      prune = True,
      retainOnDelete = True\<rparr>"

definition WebsiteFiles :: "string \<Rightarrow> Construct" where
  "WebsiteFiles dirname = BucketDeployment ''WebsiteFiles'' (WebsiteFiles_props dirname)"

definition webAcl_rules :: "Rule list" where
  "webAcl_rules =
     [\<lparr>name = ''AWS-AWSManagedRulesCommonRuleSet'',
       priority = 1,
       statement = ManagedRuleGroupStatement ''AWS'' ''AWSManagedRulesCommonRuleSet'',
       overrideAction = OverrideNone,
       ruleVisibilityConfig =
         \<lparr>cloudWatchMetricsEnabled = True, metricName = ''CommonRuleSet'',
          sampledRequestsEnabled = True\<rparr>\<rparr>,
      \<lparr>name = ''AWS-AWSManagedRulesAnonymousIpList'',
       priority = 2,
       statement = ManagedRuleGroupStatement ''AWS'' ''AWSManagedRulesAnonymousIpList'',
       overrideAction = OverrideNone,
       ruleVisibilityConfig =
         \<lparr>cloudWatchMetricsEnabled = True, metricName = ''AnonymousIpList'',
          sampledRequestsEnabled = True\<rparr>\<rparr>,
      \<lparr>name = ''AWS-AWSManagedRulesAmazonIpReputationList'',
       priority = 3,
       statement = ManagedRuleGroupStatement ''AWS'' ''AWSManagedRulesAmazonIpReputationList'',
       overrideAction = OverrideNone,
       ruleVisibilityConfig =
         \<lparr>cloudWatchMetricsEnabled = True, metricName = ''AmazonIpReputationList'',
          sampledRequestsEnabled = True\<rparr>\<rparr>,
      \<lparr>name = ''AWS-AWSManagedRulesKnownBadInputsRuleSet'',
       priority = 4,
       statement = ManagedRuleGroupStatement ''AWS'' ''AWSManagedRulesKnownBadInputsRuleSet'',
       overrideAction = OverrideNone,
       ruleVisibilityConfig =
         \<lparr>cloudWatchMetricsEnabled = True, metricName = ''KnownBadInputsRuleSet'',
          sampledRequestsEnabled = True\<rparr>\<rparr>,
      \<lparr>name = ''AWS-AWSManagedRulesSQLiRuleSet'',
       priority = 5,
       statement = ManagedRuleGroupStatement ''AWS'' ''AWSManagedRulesSQLiRuleSet'',
       overrideAction = OverrideNone,
       ruleVisibilityConfig =
         \<lparr>cloudWatchMetricsEnabled = True, metricName = ''SQLiRuleSet'',
          sampledRequestsEnabled = True\<rparr>\<rparr>]"

definition webAcl_props :: CfnWebACLProps where
  "webAcl_props =
     \<lparr>scope = ''CLOUDFRONT'',
      defaultAction = Allow,
      visibilityConfig =
        \<lparr>cloudWatchMetricsEnabled = True, metricName = ''WebsiteACL'',
         sampledRequestsEnabled = True\<rparr>,
      rules = webAcl_rules\<rparr>"

definition webAcl :: Construct where
  "webAcl = CfnWebACL ''WebsiteACL'' webAcl_props"

definition distribution_props :: DistributionProps where
  "distribution_props =
     \<lparr>defaultRootObject = ''index.html'',
      defaultBehavior =
        \<lparr>origin = S3BucketOrigin_withOriginAccessControl (construct_id website_bucket)\<rparr>,
      enableLogging = True,
      webAclId = AttrArn (construct_id webAcl)\<rparr>"

definition distribution :: Construct where
  "distribution = Distribution ''WebsiteDistribution'' distribution_props"

definition AleezaStack :: "string \<Rightarrow> StackProps option \<Rightarrow> string \<Rightarrow> ConstructError + Stack" where
  "AleezaStack i props dirname =
     and_then (add_child website_bucket (Stack_super i props)) (\<lambda>s1.
     and_then (add_child (WebsiteFiles dirname) s1) (\<lambda>s2.
     and_then (add_child webAcl s2) (\<lambda>s3.
     add_child distribution s3)))"

subsection \<open>References between the constructs\<close>

text \<open>
  The props of a construct mention earlier constructs: \<open>destinationBucket: website_bucket\<close>,
  \<open>withOriginAccessControl(website_bucket)\<close>, \<open>webAcl.attrArn\<close>. The template the stack
  synthesizes to carries each mention as a reference to the id of the construct mentioned.
\<close>

fun origin_bucket :: "Origin \<Rightarrow> string" where
  "origin_bucket (S3BucketOrigin_withOriginAccessControl b) = b"
| "origin_bucket (S3Origin b) = b"

fun origin_access_control :: "Origin \<Rightarrow> bool" where
  "origin_access_control (S3BucketOrigin_withOriginAccessControl b) = True"
| "origin_access_control (S3Origin b) = False"

fun token_target :: "Token \<Rightarrow> string" where
  "token_target (AttrArn i) = i"

fun references :: "Construct \<Rightarrow> string list" where
  "references (Bucket i p) = []"
| "references (BucketDeployment i p) = [destinationBucket p]"
| "references (CfnWebACL i p) = []"
| "references (Distribution i p) =
     [origin_bucket (origin (defaultBehavior p)), token_target (webAclId p)]"

fun is_bucket :: "Construct \<Rightarrow> bool" where
  "is_bucket (Bucket i p) = True"
| "is_bucket c = False"

fun is_web_acl :: "Construct \<Rightarrow> bool" where
  "is_web_acl (CfnWebACL i p) = True"
| "is_web_acl c = False"

fun is_distribution :: "Construct \<Rightarrow> bool" where
  "is_distribution (Distribution i p) = True"
| "is_distribution c = False"

definition find_construct :: "string \<Rightarrow> Construct list \<Rightarrow> Construct option" where
  "find_construct i cs = find (\<lambda>c. construct_id c = i) cs"

definition resolve_bucket :: "string \<Rightarrow> Stack \<Rightarrow> Construct list" where
  "resolve_bucket i s = filter (\<lambda>c. is_bucket c \<and> construct_id c = i) (children s)"

definition resolve_web_acl :: "Token \<Rightarrow> Stack \<Rightarrow> Construct list" where
  "resolve_web_acl t s =
     filter (\<lambda>c. is_web_acl c \<and> construct_id c = token_target t) (children s)"

definition distributions :: "Stack \<Rightarrow> Construct list" where
  "distributions s = filter is_distribution (children s)"

text \<open>The source gives the distribution a default behaviour and no additional one.\<close>

definition origins :: "DistributionProps \<Rightarrow> Origin list" where
  "origins p = [origin (defaultBehavior p)]"

definition all_public_access_blocked :: "BlockPublicAccess \<Rightarrow> bool" where
  "all_public_access_blocked b =
     (blockPublicAcls b \<and> blockPublicPolicy b \<and> ignorePublicAcls b \<and> restrictPublicBuckets b)"

subsection \<open>The provisioning engine\<close>

text \<open>
  Modelled from the spec: the provisioning engine is not part of the repository. The spec
  has it resolve dependencies: a resource is created only once every resource it refers to
  exists. \<open>provision\<close> carries out a plan (the ids in the order of their creation) and
  stops at the first step that is not ready; \<open>schedule\<close> is an engine that chooses the
  order itself, creating in each round every pending resource whose references exist.
\<close>

datatype ProvisionError =
  UnknownResource string
  | AlreadyProvisioned string
  | DependencyMissing string string

fun provision :: "Construct list \<Rightarrow> string list \<Rightarrow> string list \<Rightarrow> ProvisionError + string list" where
  "provision cs created [] = Inr created"
| "provision cs created (x # plan) =
     (case find_construct x cs of
        None \<Rightarrow> Inl (UnknownResource x)
      | Some c \<Rightarrow>
          if x \<in> set created then Inl (AlreadyProvisioned x)
          else (case filter (\<lambda>r. r \<notin> set created) (references c) of
                  [] \<Rightarrow> provision cs (created @ [x]) plan
                | r # rs \<Rightarrow> Inl (DependencyMissing x r)))"

definition ready :: "string list \<Rightarrow> Construct \<Rightarrow> bool" where
  "ready created c = (filter (\<lambda>r. r \<notin> set created) (references c) = [])"

function schedule :: "Construct list \<Rightarrow> string list \<Rightarrow> string list option" where
  "schedule pending created =
     (if pending = [] then Some created
      else if filter (ready created) pending = [] then None
      else schedule (filter (\<lambda>c. \<not> ready created c) pending)
             (created @ map construct_id (filter (ready created) pending)))"
  by pat_completeness auto
termination
proof (relation "measure (\<lambda>(pending, created). length pending)")
  show "wf (measure (\<lambda>(pending, created). length pending))" by simp
next
  fix pending :: "Construct list" and created :: "string list"
  assume "filter (ready created) pending \<noteq> []"
  then have "0 < length (filter (ready created) pending)" by simp
  moreover have "length (filter (ready created) pending)
      + length (filter (\<lambda>c. \<not> ready created c) pending) = length pending"
    by (rule sum_length_filter_compl)
  ultimately have "length (filter (\<lambda>c. \<not> ready created c) pending) < length pending"
    by linarith
  then show "((filter (\<lambda>c. \<not> ready created c) pending,
      created @ map construct_id (filter (ready created) pending)), (pending, created))
      \<in> measure (\<lambda>(pending, created). length pending)"
    by simp
qed

subsection \<open>The evaluation of a web ACL\<close>

text \<open>
  Modelled from the spec: the firewall that evaluates the web ACL is the provider's. The
  spec has it apply the rules in ascending priority order, the first match governed by the
  rule's own override action, and the default action when no rule matches. What a managed
  rule group decides about a request is a parameter: \<open>None\<close> when the group does not match,
  the group's action otherwise. An override action \<open>count\<close> counts the match and goes on.
\<close>

definition evaluation_order :: "CfnWebACLProps \<Rightarrow> Rule list" where
  "evaluation_order acl = sort_key priority (rules acl)"

fun eval_rules :: "(Statement \<Rightarrow> 'q \<Rightarrow> DefaultAction option) \<Rightarrow> Rule list \<Rightarrow> 'q \<Rightarrow> DefaultAction option" where
  "eval_rules groups [] q = None"
| "eval_rules groups (r # rs) q =
     (case groups (statement r) q of
        None \<Rightarrow> eval_rules groups rs q
      | Some a \<Rightarrow>
          (case overrideAction r of
             OverrideNone \<Rightarrow> Some a
           | OverrideCount \<Rightarrow> eval_rules groups rs q))"

definition evaluate :: "CfnWebACLProps \<Rightarrow> (Statement \<Rightarrow> 'q \<Rightarrow> DefaultAction option) \<Rightarrow> 'q \<Rightarrow> DefaultAction" where
  "evaluate acl groups q =
     (case eval_rules groups (evaluation_order acl) q of
        None \<Rightarrow> defaultAction acl
      | Some a \<Rightarrow> a)"

subsection \<open>The asset sync step\<close>

text \<open>
  Modelled from the spec: the upload that a bucket deployment performs is the library's.
  The spec has each run reconcile the local build directory into the bucket: pruning
  removes the remote objects with no local counterpart, and without pruning they stay.
  When the step is removed from the declaration, the retention flag keeps the uploaded
  objects; without it they are deleted. A directory and a bucket's content are maps from
  keys to contents.
\<close>

type_synonym objects = "string \<rightharpoonup> string"

definition asset_sync :: "BucketDeploymentProps \<Rightarrow> objects \<Rightarrow> objects \<Rightarrow> objects" where
  "asset_sync p local remote = (if prune p then local else remote ++ local)"

definition asset_sync_removed :: "BucketDeploymentProps \<Rightarrow> objects \<Rightarrow> objects \<Rightarrow> objects" where
  "asset_sync_removed p local remote =
     (if retainOnDelete p then remote else (\<lambda>k. if local k = None then remote k else None))"

subsection \<open>Synthesis and the difference between two declarations\<close>

text \<open>
  Modelled from the spec: staging the local build output and comparing two declarations are
  the library's and the provisioning engine's, not code of the repository. The spec has the
  asset sync step read the local build-output directory, and a run with no local changes
  produce no resource diff. So synthesis gives every declared construct the content found
  under the path of each of its asset sources, and two declarations are compared resource
  by resource, by id: a resource of the old declaration that the new one lacks is removed, a
  resource of the new one is added when the old one lacks it and modified when the old one
  has it with other props or other staged content. A file system maps the path of a file
  to its content; the files of a directory are taken by their paths below it.
\<close>

type_synonym filesystem = "string \<rightharpoonup> string"

definition directory_content :: "filesystem \<Rightarrow> string \<Rightarrow> objects" where
  "directory_content fs dir = (\<lambda>k. fs (dir @ ''/'' @ k))"

fun stage_source :: "filesystem \<Rightarrow> Source \<Rightarrow> objects" where
  "stage_source fs (Source_asset p) = directory_content fs p"

fun staged_assets :: "filesystem \<Rightarrow> Construct \<Rightarrow> objects list" where
  "staged_assets fs (Bucket i p) = []"
| "staged_assets fs (BucketDeployment i p) = map (stage_source fs) (sources p)"
| "staged_assets fs (CfnWebACL i p) = []"
| "staged_assets fs (Distribution i p) = []"

record Resource =
  declared :: Construct
  assets :: "objects list"

definition synthesize :: "filesystem \<Rightarrow> Stack \<Rightarrow> Resource list" where
  "synthesize fs s = map (\<lambda>c. \<lparr>declared = c, assets = staged_assets fs c\<rparr>) (children s)"

definition synth :: "filesystem \<Rightarrow> string \<Rightarrow> StackProps option \<Rightarrow> string \<Rightarrow> ConstructError + Resource list" where
  "synth fs i props dirname =
     and_then (AleezaStack i props dirname) (\<lambda>s. Inr (synthesize fs s))"

definition find_resource :: "string \<Rightarrow> Resource list \<Rightarrow> Resource option" where
  "find_resource i rs = find (\<lambda>r. construct_id (declared r) = i) rs"

datatype Change = Added string | Removed string | Modified string

definition resource_diff :: "Resource list \<Rightarrow> Resource list \<Rightarrow> Change list" where
  "resource_diff old new =
     map (\<lambda>r. Removed (construct_id (declared r)))
       (filter (\<lambda>r. find_resource (construct_id (declared r)) new = None) old)
     @ concat (map (\<lambda>r.
         case find_resource (construct_id (declared r)) old of
           None \<Rightarrow> [Added (construct_id (declared r))]
         | Some r' \<Rightarrow> if r' = r then [] else [Modified (construct_id (declared r))]) new)"

subsection \<open>Teardown\<close>

text \<open>
  Modelled from the spec: teardown is the provisioning engine's. The spec has every entity
  destroyed by an explicit teardown, subject to its retention flag; the source's comments
  say what its flags ask for: removal policy \<open>DESTROY\<close> deletes the bucket with the stack,
  \<open>autoDeleteObjects\<close> deletes the objects with the bucket (a bucket that still holds
  objects cannot be deleted), \<open>retainOnDelete\<close> keeps the uploaded content when the
  deployment is removed. The deployed state maps the id of each bucket that exists to its
  objects; constructs are destroyed in the reverse order of their creation.
\<close>

type_synonym deployed = "string \<rightharpoonup> objects"

datatype TeardownError = BucketNotEmpty string

fun destroy_construct :: "Construct \<Rightarrow> deployed \<Rightarrow> TeardownError + deployed" where
  "destroy_construct (Bucket i p) st =
     (case removalPolicy p of
        DESTROY \<Rightarrow>
          (case st i of
             None \<Rightarrow> Inr st
           | Some objs \<Rightarrow>
               if autoDeleteObjects p \<or> objs = Map.empty then Inr (st(i := None))
               else Inl (BucketNotEmpty i))
      | RETAIN \<Rightarrow> Inr st
      | SNAPSHOT \<Rightarrow> Inr st
      | RETAIN_ON_UPDATE_OR_DELETE \<Rightarrow> Inr st)"
| "destroy_construct (BucketDeployment i p) st =
     (if retainOnDelete p then Inr st
      else (case st (destinationBucket p) of
              None \<Rightarrow> Inr st
            | Some objs \<Rightarrow> Inr (st(destinationBucket p \<mapsto> Map.empty))))"
| "destroy_construct (CfnWebACL i p) st = Inr st"
| "destroy_construct (Distribution i p) st = Inr st"

fun destroy_all :: "Construct list \<Rightarrow> deployed \<Rightarrow> TeardownError + deployed" where
  "destroy_all [] st = Inr st"
| "destroy_all (c # cs) st = and_then (destroy_construct c st) (destroy_all cs)"

definition teardown :: "Stack \<Rightarrow> deployed \<Rightarrow> TeardownError + deployed" where
  "teardown s st = destroy_all (rev (children s)) st"

subsection \<open>The modules of the repository\<close>

text \<open>
  The source files, with paths relative to the root of the sources. A TypeScript file has
  import declarations, exported classes and the classes it instantiates at top level; the
  other files have none. A relative module specifier is resolved against the directory of
  the importing file, trying the extensions and index files of TypeScript's resolution; a
  specifier that is not relative names a package, which is no file of the repository.
\<close>

datatype ImportClause = Namespace string | Named "string list"

record SourceFile =
  file_path :: string
  import_decls :: "(ImportClause \<times> string) list"
  exported_classes :: "string list"
  instantiates :: "string list"

definition entry_point :: SourceFile where
  "entry_point =
     \<lparr>file_path = ''bin/cloud-foundation-project.ts'',
      import_decls =
        [(Namespace ''cdk'', ''aws-cdk-lib''),
         (Named [''CloudFoundationProjectStack''], ''../lib/cloud-foundation-project-stack''),
         (Namespace ''cdk'', ''aws-cdk-lib''),
         (Namespace ''s3'', ''aws-cdk-lib/aws-s3''),
         (Namespace ''s3_deployment'', ''aws-cdk-lib/aws-s3-deployment''),
         (Namespace ''cloudfront'', ''aws-cdk-lib/aws-cloudfront''),
         (Namespace ''cf_origins'', ''aws-cdk-lib/aws-cloudfront-origins''),
         (Namespace ''wafv2'', ''aws-cdk-lib/aws-wafv2''),
         (Named [''Construct''], ''constructs''),
         (Namespace ''path'', ''path'')],
      exported_classes = [''AleezaStack''],
      instantiates = [''cdk.App'', ''CloudFoundationProjectStack'']\<rparr>"

definition repository :: "SourceFile list" where
  "repository =
     [entry_point,
      \<lparr>file_path = ''dist/index.html'', import_decls = [], exported_classes = [],
       instantiates = []\<rparr>,
      \<lparr>file_path = ''README.md'', import_decls = [], exported_classes = [],
       instantiates = []\<rparr>]"

definition is_relative :: "string \<Rightarrow> bool" where
  "is_relative spec = (take 2 spec = ''./'' \<or> take 3 spec = ''../'')"

definition module_candidates :: "string \<Rightarrow> string \<Rightarrow> string list" where
  "module_candidates importer spec =
     (let base = path_join [path_dirname importer, spec]
      in map (\<lambda>ext. base @ ext)
           [''.ts'', ''.tsx'', ''.d.ts'', ''.js'', ''.jsx'',
            ''/index.ts'', ''/index.tsx'', ''/index.d.ts'', ''/index.js'', ''/index.jsx''])"

definition resolve_import :: "SourceFile list \<Rightarrow> string \<Rightarrow> string \<Rightarrow> SourceFile option" where
  "resolve_import repo importer spec =
     (if is_relative spec
      then find (\<lambda>f. file_path f \<in> set (module_candidates importer spec)) repo
      else None)"

definition defines_class :: "SourceFile list \<Rightarrow> string \<Rightarrow> bool" where
  "defines_class repo c = (c \<in> set (concat (map exported_classes repo)))"

section \<open>Properties of the declaration\<close>

subsection \<open>What the constructor builds\<close>

lemma AleezaStack_result:
  "AleezaStack i props d =
     Inr \<lparr>stack_id = i, stack_props = props,
          children = [website_bucket, WebsiteFiles d, webAcl, distribution]\<rparr>"
  by (simp add: AleezaStack_def and_then_def add_child_def Stack_super_def
      website_bucket_def WebsiteFiles_def webAcl_def distribution_def)

lemma children_AleezaStack:
  "AleezaStack i props d = Inr s \<Longrightarrow>
     children s = [website_bucket, WebsiteFiles d, webAcl, distribution]"
  by (simp add: AleezaStack_result) auto

subsection \<open>Bucket and distribution\<close>

text \<open>
  C1 (private-origin invariant): the constructor succeeds and declares one distribution; the
  origin of that distribution names the one declared bucket and reaches it through Origin
  Access Control, and the bucket's block-public-access setting is \<open>BLOCK_ALL\<close>, every one
  of its four flags enabled.
\<close>

theorem private_origin_invariant:
  "\<exists>s dp bp. AleezaStack i props d = Inr s
     \<and> distributions s = [Distribution ''WebsiteDistribution'' dp]
     \<and> filter is_bucket (children s) = [Bucket ''WebsiteBucket'' bp]
     \<and> resolve_bucket (origin_bucket (origin (defaultBehavior dp))) s
         = [Bucket ''WebsiteBucket'' bp]
     \<and> origin_access_control (origin (defaultBehavior dp))
     \<and> blockPublicAccess bp = BLOCK_ALL
     \<and> all_public_access_blocked (blockPublicAccess bp)"
  by (simp add: AleezaStack_result distributions_def resolve_bucket_def
      website_bucket_def WebsiteFiles_def webAcl_def distribution_def
      distribution_props_def website_bucket_props_def all_public_access_blocked_def
      BLOCK_ALL_def)

text \<open>
  C3: the one declared distribution binds one origin, which resolves to exactly one declared
  bucket (the only bucket of the stack) and reaches it through Origin Access Control; its
  web ACL id is the ARN attribute of exactly one declared web ACL; its default root object
  is \<open>index.html\<close> and logging is enabled.
\<close>

theorem distribution_bindings:
  "\<exists>s dp. AleezaStack i props d = Inr s
     \<and> distributions s = [Distribution ''WebsiteDistribution'' dp]
     \<and> origins dp = [S3BucketOrigin_withOriginAccessControl ''WebsiteBucket'']
     \<and> list_all origin_access_control (origins dp)
     \<and> resolve_bucket ''WebsiteBucket'' s = [website_bucket]
     \<and> filter is_bucket (children s) = [website_bucket]
     \<and> webAclId dp = AttrArn ''WebsiteACL''
     \<and> resolve_web_acl (webAclId dp) s = [webAcl]
     \<and> filter is_web_acl (children s) = [webAcl]
     \<and> defaultRootObject dp = ''index.html''
     \<and> enableLogging dp"
  by (simp add: AleezaStack_result distributions_def resolve_bucket_def resolve_web_acl_def
      origins_def website_bucket_def WebsiteFiles_def webAcl_def distribution_def
      distribution_props_def)

text \<open>
  C4: the one declared bucket is encrypted at rest (S3-managed keys), blocks every kind of
  public access, is versioned and enforces SSL.
\<close>

theorem storage_resource_flags:
  "\<exists>s bp. AleezaStack i props d = Inr s
     \<and> filter is_bucket (children s) = [Bucket ''WebsiteBucket'' bp]
     \<and> encryption bp = S3_MANAGED
     \<and> encryption bp \<noteq> UNENCRYPTED
     \<and> blockPublicAccess bp = BLOCK_ALL
     \<and> all_public_access_blocked (blockPublicAccess bp)
     \<and> versioned bp
     \<and> enforceSSL bp"
  by (simp add: AleezaStack_result website_bucket_def WebsiteFiles_def webAcl_def
      distribution_def website_bucket_props_def all_public_access_blocked_def BLOCK_ALL_def)

subsection \<open>Web ACL\<close>

text \<open>
  In a list of rules with ascending, distinct priorities, a matching rule whose override
  action is \<open>none\<close> decides as soon as no rule of lower priority matches.
\<close>

lemma eval_rules_first_match:
  assumes "r \<in> set rs"
    and "groups (statement r) q = Some a"
    and "overrideAction r = OverrideNone"
    and "\<forall>r' \<in> set rs. priority r' < priority r \<longrightarrow> groups (statement r') q = None"
    and "sorted (map priority rs)"
    and "distinct (map priority rs)"
  shows "eval_rules groups rs q = Some a"
  using assms
proof (induction rs)
  case Nil
  then show ?case by simp
next
  case (Cons x rs)
  show ?case
  proof (cases "x = r")
    case True
    with Cons.prems show ?thesis by simp
  next
    case False
    with Cons.prems have in_rs: "r \<in> set rs" by simp
    from Cons.prems in_rs have "priority x \<le> priority r" by auto
    moreover from Cons.prems in_rs have "priority x \<noteq> priority r" by auto
    ultimately have "priority x < priority r" by simp
    with Cons.prems have "groups (statement x) q = None" by simp
    moreover have "eval_rules groups rs q = Some a"
      using Cons.IH in_rs Cons.prems by simp
    ultimately show ?thesis by simp
  qed
qed

text \<open>An action that the rules return is the action of one of their rule groups.\<close>

lemma eval_rules_source:
  "eval_rules groups rs q = Some a \<Longrightarrow> \<exists>r. r \<in> set rs \<and> groups (statement r) q = Some a"
proof (induction rs)
  case Nil
  then show ?case by simp
next
  case (Cons x rs)
  then show ?case
    by (auto split: option.splits OverrideAction.splits)
qed

lemma evaluation_order_webAcl: "evaluation_order webAcl_props = webAcl_rules"
  by (simp add: evaluation_order_def webAcl_props_def webAcl_rules_def)

lemma priorities_webAcl: "map priority webAcl_rules = [1, 2, 3, 4, 5]"
  by (simp add: webAcl_rules_def)

lemma overrides_webAcl: "r \<in> set webAcl_rules \<Longrightarrow> overrideAction r = OverrideNone"
  by (auto simp: webAcl_rules_def)

text \<open>
  C2: the priorities of the declared rules are pairwise distinct, and the rules are evaluated
  in ascending priority order: the order of evaluation holds the declared rules with their
  priorities ascending, and a declared rule that matches decides the request whenever no
  declared rule of lower priority matches.
\<close>

theorem web_acl_priorities:
  assumes "r \<in> set (rules webAcl_props)"
    and "groups (statement r) q = Some a"
    and "list_all (\<lambda>r'. groups (statement r') q = None)
           (filter (\<lambda>r'. priority r' < priority r) (rules webAcl_props))"
  shows "distinct (map priority (rules webAcl_props))
     \<and> sorted (map priority (evaluation_order webAcl_props))
     \<and> set (evaluation_order webAcl_props) = set (rules webAcl_props)
     \<and> evaluate webAcl_props groups q = a"
proof -
  have rs: "rules webAcl_props = webAcl_rules" by (simp add: webAcl_props_def)
  have d: "distinct (map priority webAcl_rules)" by (simp add: priorities_webAcl)
  have s: "sorted (map priority webAcl_rules)" by (simp add: priorities_webAcl)
  from assms(3) have lower:
    "\<forall>r' \<in> set webAcl_rules. priority r' < priority r \<longrightarrow> groups (statement r') q = None"
    by (simp add: rs list_all_iff)
  from assms(1) have r: "r \<in> set webAcl_rules" by (simp add: rs)
  then have "overrideAction r = OverrideNone" by (rule overrides_webAcl)
  with r assms(2) have "eval_rules groups webAcl_rules q = Some a"
    using lower s d by (rule eval_rules_first_match)
  then have "evaluate webAcl_props groups q = a"
    by (simp add: evaluate_def evaluation_order_webAcl)
  with d s show ?thesis by (simp add: rs evaluation_order_webAcl)
qed

text \<open>
  The rule of priority 4 matches with \<open>block\<close> and the rule of priority 5 with \<open>allow\<close>: the
  request is blocked.
\<close>

theorem web_acl_priorities_witness:
  "\<lparr>name = ''AWS-AWSManagedRulesKnownBadInputsRuleSet'',
    priority = 4,
    statement = ManagedRuleGroupStatement ''AWS'' ''AWSManagedRulesKnownBadInputsRuleSet'',
    overrideAction = OverrideNone,
    ruleVisibilityConfig =
      \<lparr>cloudWatchMetricsEnabled = True, metricName = ''KnownBadInputsRuleSet'',
       sampledRequestsEnabled = True\<rparr>\<rparr> \<in> set (rules webAcl_props)
   \<and> list_all
       (\<lambda>r'. (if groupName (statement r') = ''AWSManagedRulesKnownBadInputsRuleSet''
              then Some Block
              else if groupName (statement r') = ''AWSManagedRulesSQLiRuleSet''
              then Some Allow else None) = None)
       (filter (\<lambda>r'. priority r' < 4) (rules webAcl_props))
   \<and> distinct (map priority (rules webAcl_props))
   \<and> evaluate webAcl_props
       (\<lambda>st q. if groupName st = ''AWSManagedRulesKnownBadInputsRuleSet'' then Some Block
               else if groupName st = ''AWSManagedRulesSQLiRuleSet'' then Some Allow
               else None) () = Block"
  using web_acl_priorities [of
      "\<lparr>name = ''AWS-AWSManagedRulesKnownBadInputsRuleSet'',
        priority = 4,
        statement = ManagedRuleGroupStatement ''AWS'' ''AWSManagedRulesKnownBadInputsRuleSet'',
        overrideAction = OverrideNone,
        ruleVisibilityConfig =
          \<lparr>cloudWatchMetricsEnabled = True, metricName = ''KnownBadInputsRuleSet'',
           sampledRequestsEnabled = True\<rparr>\<rparr>"
      "\<lambda>st q. if groupName st = ''AWSManagedRulesKnownBadInputsRuleSet'' then Some Block
               else if groupName st = ''AWSManagedRulesSQLiRuleSet'' then Some Allow
               else None" "()" Block]
  by (simp add: webAcl_props_def webAcl_rules_def)

text \<open>
  C9: the scope of the web ACL is \<open>CLOUDFRONT\<close> and its default action is \<open>allow\<close>, so that
  a request that no rule group matches is allowed; it declares five rules, each with
  override action \<open>none\<close>, CloudWatch metrics and sampled requests enabled; and whenever
  the web ACL blocks a request, the rule group of one of the declared rules blocked it.
\<close>

theorem web_acl_configuration:
  assumes "evaluate webAcl_props groups q = Block"
  shows "scope webAcl_props = ''CLOUDFRONT''
     \<and> defaultAction webAcl_props = Allow
     \<and> evaluate webAcl_props (\<lambda>st q. None) q = Allow
     \<and> length (rules webAcl_props) = 5
     \<and> list_all (\<lambda>r. overrideAction r = OverrideNone
           \<and> cloudWatchMetricsEnabled (ruleVisibilityConfig r)
           \<and> sampledRequestsEnabled (ruleVisibilityConfig r)) (rules webAcl_props)
     \<and> (\<exists>r. r \<in> set (rules webAcl_props) \<and> groups (statement r) q = Some Block)"
proof -
  have rs: "rules webAcl_props = webAcl_rules" by (simp add: webAcl_props_def)
  have da: "defaultAction webAcl_props = Allow" by (simp add: webAcl_props_def)
  have sc: "scope webAcl_props = ''CLOUDFRONT''" by (simp add: webAcl_props_def)
  have len: "length webAcl_rules = 5" by (simp add: webAcl_rules_def)
  have flags: "list_all (\<lambda>r. overrideAction r = OverrideNone
           \<and> cloudWatchMetricsEnabled (ruleVisibilityConfig r)
           \<and> sampledRequestsEnabled (ruleVisibilityConfig r)) webAcl_rules"
    by (simp add: webAcl_rules_def)
  have none: "eval_rules (\<lambda>st q. None) rs' q = None" for rs' :: "Rule list"
    by (induction rs') simp_all
  have allow: "evaluate webAcl_props (\<lambda>st q. None) q = Allow"
    by (simp add: evaluate_def none da)
  from assms have "eval_rules groups webAcl_rules q = Some Block"
    by (simp add: evaluate_def evaluation_order_webAcl da split: option.splits)
  then have "\<exists>r. r \<in> set webAcl_rules \<and> groups (statement r) q = Some Block"
    by (rule eval_rules_source)
  with sc da allow len flags show ?thesis by (simp add: rs)
qed

theorem web_acl_configuration_witness:
  "evaluate webAcl_props
       (\<lambda>st q. if groupName st = ''AWSManagedRulesSQLiRuleSet'' then Some Block else None)
       ''q'' = Block
   \<and> evaluate webAcl_props (\<lambda>st q. None) ''q'' = Allow
   \<and> length (rules webAcl_props) = 5"
proof -
  have h: "evaluate webAcl_props
       (\<lambda>st q. if groupName st = ''AWSManagedRulesSQLiRuleSet'' then Some Block else None)
       ''q'' = Block"
    by (simp add: evaluate_def evaluation_order_webAcl webAcl_rules_def)
  from web_acl_configuration [OF h] h show ?thesis by simp
qed

subsection \<open>Provisioning\<close>

text \<open>
  When the engine carries out a plan, everything a resource of the plan refers to was created
  before it.
\<close>

lemma provision_references_created:
  "provision cs created plan = Inr final \<Longrightarrow> x \<in> set plan \<Longrightarrow> find_construct x cs = Some c \<Longrightarrow>
     set (references c) \<subseteq> set created \<union> set (takeWhile (\<lambda>y. y \<noteq> x) plan)"
proof (induction plan arbitrary: created)
  case Nil
  then show ?case by simp
next
  case (Cons y plan)
  show ?case
  proof (cases "y = x")
    case True
    from Cons.prems(1,3) have "filter (\<lambda>r. r \<notin> set created) (references c) = []"
      unfolding True by (simp split: if_splits list.splits)
    then have "set (references c) \<subseteq> set created"
      by (auto simp: filter_empty_conv)
    with True show ?thesis by auto
  next
    case False
    with Cons.prems(2) have x: "x \<in> set plan" by simp
    from Cons.prems(1) have run: "provision cs (created @ [y]) plan = Inr final"
      by (auto split: option.splits if_splits list.splits)
    from Cons.IH [OF run x Cons.prems(3)] False show ?thesis by auto
  qed
qed

text \<open>
  C6: in every plan that the engine carries out on the declared stack, the bucket and the web
  ACL are created before the distribution, and the bucket before the bucket deployment. Such
  plans exist: the engine's own schedule is one, and the engine carries it out.
\<close>

theorem provisioning_respects_dependencies:
  assumes "AleezaStack i props d = Inr s"
    and "provision (children s) [] plan = Inr final"
  shows "(''WebsiteDistribution'' \<in> set plan \<longrightarrow>
            ''WebsiteBucket'' \<in> set (takeWhile (\<lambda>y. y \<noteq> ''WebsiteDistribution'') plan)
          \<and> ''WebsiteACL'' \<in> set (takeWhile (\<lambda>y. y \<noteq> ''WebsiteDistribution'') plan))
     \<and> (''WebsiteFiles'' \<in> set plan \<longrightarrow>
            ''WebsiteBucket'' \<in> set (takeWhile (\<lambda>y. y \<noteq> ''WebsiteFiles'') plan))
     \<and> schedule (children s) []
         = Some [''WebsiteBucket'', ''WebsiteACL'', ''WebsiteFiles'', ''WebsiteDistribution'']
     \<and> provision (children s) []
           [''WebsiteBucket'', ''WebsiteACL'', ''WebsiteFiles'', ''WebsiteDistribution'']
         = Inr [''WebsiteBucket'', ''WebsiteACL'', ''WebsiteFiles'', ''WebsiteDistribution'']"
proof -
  have cs: "children s = [website_bucket, WebsiteFiles d, webAcl, distribution]"
    using assms(1) by (rule children_AleezaStack)
  have fd: "find_construct ''WebsiteDistribution'' (children s) = Some distribution"
    by (simp add: cs find_construct_def website_bucket_def WebsiteFiles_def webAcl_def
        distribution_def)
  have ff: "find_construct ''WebsiteFiles'' (children s) = Some (WebsiteFiles d)"
    by (simp add: cs find_construct_def website_bucket_def WebsiteFiles_def)
  have rd: "references distribution = [''WebsiteBucket'', ''WebsiteACL'']"
    by (simp add: distribution_def distribution_props_def website_bucket_def webAcl_def)
  have rf: "references (WebsiteFiles d) = [''WebsiteBucket'']"
    by (simp add: WebsiteFiles_def WebsiteFiles_props_def website_bucket_def)
  have dist: "''WebsiteBucket'' \<in> set (takeWhile (\<lambda>y. y \<noteq> ''WebsiteDistribution'') plan)
      \<and> ''WebsiteACL'' \<in> set (takeWhile (\<lambda>y. y \<noteq> ''WebsiteDistribution'') plan)"
    if "''WebsiteDistribution'' \<in> set plan"
    using provision_references_created [OF assms(2) that fd] by (simp add: rd)
  have files: "''WebsiteBucket'' \<in> set (takeWhile (\<lambda>y. y \<noteq> ''WebsiteFiles'') plan)"
    if "''WebsiteFiles'' \<in> set plan"
    using provision_references_created [OF assms(2) that ff] by (simp add: rf)
  have rb: "references website_bucket = []" by (simp add: website_bucket_def)
  have ra: "references webAcl = []" by (simp add: webAcl_def)
  have ids: "construct_id website_bucket = ''WebsiteBucket''"
    "construct_id (WebsiteFiles d) = ''WebsiteFiles''"
    "construct_id webAcl = ''WebsiteACL''"
    "construct_id distribution = ''WebsiteDistribution''"
    by (simp_all add: website_bucket_def WebsiteFiles_def webAcl_def distribution_def)
  have sched: "schedule (children s) []
         = Some [''WebsiteBucket'', ''WebsiteACL'', ''WebsiteFiles'', ''WebsiteDistribution'']"
    by (simp add: cs ready_def rb ra rd rf ids)
  have prov: "provision (children s) []
           [''WebsiteBucket'', ''WebsiteACL'', ''WebsiteFiles'', ''WebsiteDistribution'']
         = Inr [''WebsiteBucket'', ''WebsiteACL'', ''WebsiteFiles'', ''WebsiteDistribution'']"
    by (simp add: cs find_construct_def rb ra rd rf ids)
  from dist files sched prov show ?thesis by blast
qed

theorem provisioning_respects_dependencies_witness:
  "AleezaStack ''CloudFoundationProjectStack'' None ''bin'' =
     Inr \<lparr>stack_id = ''CloudFoundationProjectStack'', stack_props = None,
          children = [website_bucket, WebsiteFiles ''bin'', webAcl, distribution]\<rparr>
   \<and> provision [website_bucket, WebsiteFiles ''bin'', webAcl, distribution] []
       [''WebsiteBucket'', ''WebsiteFiles'', ''WebsiteACL'', ''WebsiteDistribution'']
     = Inr [''WebsiteBucket'', ''WebsiteFiles'', ''WebsiteACL'', ''WebsiteDistribution'']
   \<and> ''WebsiteDistribution'' \<in> set
       [''WebsiteBucket'', ''WebsiteFiles'', ''WebsiteACL'', ''WebsiteDistribution'']
   \<and> ''WebsiteFiles'' \<in> set
       [''WebsiteBucket'', ''WebsiteFiles'', ''WebsiteACL'', ''WebsiteDistribution'']
   \<and> ''WebsiteBucket'' \<in> set (takeWhile (\<lambda>y. y \<noteq> ''WebsiteDistribution'')
       [''WebsiteBucket'', ''WebsiteFiles'', ''WebsiteACL'', ''WebsiteDistribution''])
   \<and> ''WebsiteACL'' \<in> set (takeWhile (\<lambda>y. y \<noteq> ''WebsiteDistribution'')
       [''WebsiteBucket'', ''WebsiteFiles'', ''WebsiteACL'', ''WebsiteDistribution''])
   \<and> ''WebsiteBucket'' \<in> set (takeWhile (\<lambda>y. y \<noteq> ''WebsiteFiles'')
       [''WebsiteBucket'', ''WebsiteFiles'', ''WebsiteACL'', ''WebsiteDistribution''])"
proof -
  have s: "AleezaStack ''CloudFoundationProjectStack'' None ''bin'' =
     Inr \<lparr>stack_id = ''CloudFoundationProjectStack'', stack_props = None,
          children = [website_bucket, WebsiteFiles ''bin'', webAcl, distribution]\<rparr>"
    by (rule AleezaStack_result)
  have p: "provision (children \<lparr>stack_id = ''CloudFoundationProjectStack'', stack_props = None,
          children = [website_bucket, WebsiteFiles ''bin'', webAcl, distribution]\<rparr>) []
       [''WebsiteBucket'', ''WebsiteFiles'', ''WebsiteACL'', ''WebsiteDistribution'']
     = Inr [''WebsiteBucket'', ''WebsiteFiles'', ''WebsiteACL'', ''WebsiteDistribution'']"
    by (simp add: find_construct_def website_bucket_def WebsiteFiles_def webAcl_def
        distribution_def distribution_props_def WebsiteFiles_props_def)
  from provisioning_respects_dependencies [OF s p] s p show ?thesis by simp
qed

subsection \<open>Idempotence\<close>

text \<open>What a run synthesizes: the four declared constructs, the deployment with its staged
  directory.\<close>

lemma synth_result:
  "synth fs i props d =
     Inr [\<lparr>declared = website_bucket, assets = []\<rparr>,
          \<lparr>declared = WebsiteFiles d,
           assets = [directory_content fs (path_join [d, ''..'', ''dist''])]\<rparr>,
          \<lparr>declared = webAcl, assets = []\<rparr>,
          \<lparr>declared = distribution, assets = []\<rparr>]"
  by (simp add: synth_def AleezaStack_result and_then_def synthesize_def
      website_bucket_def WebsiteFiles_def WebsiteFiles_props_def webAcl_def distribution_def)

text \<open>
  C7: take two runs of the declaration on the same stack id, props and directory, each on its
  own file system. When the build-output directory \<open>dist\<close> has the same content in both
  (no local changes), the two runs synthesize the same resources and their difference is
  empty, whatever else differs between the file systems; when the content differs, the
  difference is the modified bucket deployment and nothing else.
\<close>

theorem declaration_idempotent:
  assumes "synth fs i props d = Inr t"
    and "synth fs' i props d = Inr t'"
  shows "resource_diff t t' =
           (if directory_content fs (path_join [d, ''..'', ''dist''])
               = directory_content fs' (path_join [d, ''..'', ''dist''])
            then [] else [Modified ''WebsiteFiles''])
     \<and> (directory_content fs (path_join [d, ''..'', ''dist''])
           = directory_content fs' (path_join [d, ''..'', ''dist'']) \<longrightarrow> t' = t)"
proof -
  from assms(1) have t: "t =
     [\<lparr>declared = website_bucket, assets = []\<rparr>,
      \<lparr>declared = WebsiteFiles d,
       assets = [directory_content fs (path_join [d, ''..'', ''dist''])]\<rparr>,
      \<lparr>declared = webAcl, assets = []\<rparr>,
      \<lparr>declared = distribution, assets = []\<rparr>]"
    by (simp add: synth_result)
  from assms(2) have t': "t' =
     [\<lparr>declared = website_bucket, assets = []\<rparr>,
      \<lparr>declared = WebsiteFiles d,
       assets = [directory_content fs' (path_join [d, ''..'', ''dist''])]\<rparr>,
      \<lparr>declared = webAcl, assets = []\<rparr>,
      \<lparr>declared = distribution, assets = []\<rparr>]"
    by (simp add: synth_result)
  have ids: "construct_id website_bucket = ''WebsiteBucket''"
    "construct_id (WebsiteFiles d) = ''WebsiteFiles''"
    "construct_id webAcl = ''WebsiteACL''"
    "construct_id distribution = ''WebsiteDistribution''"
    by (simp_all add: website_bucket_def WebsiteFiles_def webAcl_def distribution_def)
  show ?thesis
    by (simp add: t t' resource_diff_def find_resource_def ids)
qed

text \<open>
  Two file systems that differ outside \<open>/app/dist\<close> give no difference; a changed
  \<open>/app/dist/index.html\<close> gives the modified deployment.
\<close>

theorem declaration_idempotent_witness:
  "directory_content [''/app/dist/index.html'' \<mapsto> ''<html>'', ''/app/notes.txt'' \<mapsto> ''a'']
       (path_join [''/app/bin'', ''..'', ''dist''])
     = directory_content [''/app/dist/index.html'' \<mapsto> ''<html>'', ''/app/notes.txt'' \<mapsto> ''b'']
       (path_join [''/app/bin'', ''..'', ''dist''])
   \<and> [''/app/dist/index.html'' \<mapsto> ''<html>'', ''/app/notes.txt'' \<mapsto> ''a'']
     \<noteq> [''/app/dist/index.html'' \<mapsto> ''<html>'', ''/app/notes.txt'' \<mapsto> ''b'']
   \<and> synth [''/app/dist/index.html'' \<mapsto> ''<html>'', ''/app/notes.txt'' \<mapsto> ''b'']
       ''CloudFoundationProjectStack'' None ''/app/bin''
     = synth [''/app/dist/index.html'' \<mapsto> ''<html>'', ''/app/notes.txt'' \<mapsto> ''a'']
       ''CloudFoundationProjectStack'' None ''/app/bin''
   \<and> resource_diff
       (projr (synth [''/app/dist/index.html'' \<mapsto> ''<html>'', ''/app/notes.txt'' \<mapsto> ''a'']
          ''CloudFoundationProjectStack'' None ''/app/bin''))
       (projr (synth [''/app/dist/index.html'' \<mapsto> ''<html>'', ''/app/notes.txt'' \<mapsto> ''b'']
          ''CloudFoundationProjectStack'' None ''/app/bin'')) = []
   \<and> resource_diff
       (projr (synth [''/app/dist/index.html'' \<mapsto> ''<html>'', ''/app/notes.txt'' \<mapsto> ''a'']
          ''CloudFoundationProjectStack'' None ''/app/bin''))
       (projr (synth [''/app/dist/index.html'' \<mapsto> ''<body>'']
          ''CloudFoundationProjectStack'' None ''/app/bin'')) = [Modified ''WebsiteFiles'']"
proof -
  let ?fa = "[''/app/dist/index.html'' \<mapsto> ''<html>'', ''/app/notes.txt'' \<mapsto> ''a'']"
  let ?fb = "[''/app/dist/index.html'' \<mapsto> ''<html>'', ''/app/notes.txt'' \<mapsto> ''b'']"
  let ?fc = "[''/app/dist/index.html'' \<mapsto> ''<body>'']"
  let ?run = "\<lambda>fs. synth fs ''CloudFoundationProjectStack'' None ''/app/bin''"
  have dir: "path_join [''/app/bin'', ''..'', ''dist''] = ''/app/dist''"
    by (simp add: path_join_def path_normalize_def split_path_def)
  have same: "directory_content ?fa ''/app/dist'' = directory_content ?fb ''/app/dist''"
    by (rule ext) (simp add: directory_content_def)
  have "directory_content ?fa ''/app/dist'' ''index.html''
      \<noteq> directory_content ?fc ''/app/dist'' ''index.html''"
    by (simp add: directory_content_def)
  then have other: "directory_content ?fa ''/app/dist'' \<noteq> directory_content ?fc ''/app/dist''"
    by metis
  have "?fa ''/app/notes.txt'' \<noteq> ?fb ''/app/notes.txt''" by simp
  then have differ: "?fa \<noteq> ?fb" by metis
  have ra: "?run ?fa = Inr (projr (?run ?fa))" by (simp add: synth_result)
  have rb: "?run ?fb = Inr (projr (?run ?fb))" by (simp add: synth_result)
  have rc: "?run ?fc = Inr (projr (?run ?fc))" by (simp add: synth_result)
  have runs: "?run ?fb = ?run ?fa" by (simp add: synth_result dir same)
  have d1: "resource_diff (projr (?run ?fa)) (projr (?run ?fb)) = []"
    using declaration_idempotent [OF ra rb, THEN conjunct1]
    by (simp only: dir same simp_thms if_True)
  have d2: "resource_diff (projr (?run ?fa)) (projr (?run ?fc)) = [Modified ''WebsiteFiles'']"
    using declaration_idempotent [OF ra rc, THEN conjunct1]
    by (simp only: dir other simp_thms if_False)
  from same differ runs d1 d2 show ?thesis by (simp only: dir simp_thms)
qed

subsection \<open>Asset sync\<close>

text \<open>
  C5: a file that was uploaded and is then removed from the local directory is removed from
  the bucket by the next run when pruning is enabled, and stays there with its content when
  pruning is disabled; with the retention flag set, removing the step leaves the bucket's
  content as it is. The declared step has both flags set.
\<close>

theorem asset_sync_pruning_and_retention:
  assumes "local k = Some v"
  shows "asset_sync (p\<lparr>prune := True\<rparr>) (local(k := None))
           (asset_sync (p\<lparr>prune := True\<rparr>) local remote) k = None
     \<and> asset_sync (p\<lparr>prune := False\<rparr>) (local(k := None))
           (asset_sync (p\<lparr>prune := False\<rparr>) local remote) k = Some v
     \<and> asset_sync_removed (p\<lparr>retainOnDelete := True\<rparr>) local (asset_sync p local remote)
         = asset_sync p local remote
     \<and> prune (WebsiteFiles_props d)
     \<and> retainOnDelete (WebsiteFiles_props d)"
  using assms
  by (simp add: asset_sync_def asset_sync_removed_def WebsiteFiles_props_def map_add_def)

theorem asset_sync_pruning_and_retention_witness:
  "[''index.html'' \<mapsto> ''<html>'', ''old.css'' \<mapsto> ''body''] ''old.css'' = Some ''body''
   \<and> asset_sync (WebsiteFiles_props ''bin'')
        ([''index.html'' \<mapsto> ''<html>'', ''old.css'' \<mapsto> ''body''](''old.css'' := None))
        (asset_sync (WebsiteFiles_props ''bin'')
           [''index.html'' \<mapsto> ''<html>'', ''old.css'' \<mapsto> ''body''] Map.empty)
        ''old.css'' = None
   \<and> asset_sync ((WebsiteFiles_props ''bin'')\<lparr>prune := False\<rparr>)
        ([''index.html'' \<mapsto> ''<html>'', ''old.css'' \<mapsto> ''body''](''old.css'' := None))
        (asset_sync ((WebsiteFiles_props ''bin'')\<lparr>prune := False\<rparr>)
           [''index.html'' \<mapsto> ''<html>'', ''old.css'' \<mapsto> ''body''] Map.empty)
        ''old.css'' = Some ''body''"
proof -
  have h: "[''index.html'' \<mapsto> ''<html>'', ''old.css'' \<mapsto> ''body''] ''old.css'' = Some ''body''"
    by simp
  have t: "(WebsiteFiles_props ''bin'')\<lparr>prune := True\<rparr> = WebsiteFiles_props ''bin''"
    by (simp add: WebsiteFiles_props_def)
  from asset_sync_pruning_and_retention
    [of "[''index.html'' \<mapsto> ''<html>'', ''old.css'' \<mapsto> ''body'']" "''old.css''" "''body''"
      "WebsiteFiles_props ''bin''" Map.empty, OF h] h
  show ?thesis by (simp add: t)
qed

subsection \<open>Teardown\<close>

text \<open>
  C10: the removal policy of the declared bucket is \<open>DESTROY\<close> and its objects are deleted
  with it, while the bucket deployment retains its content on removal: destroying the
  deployment alone changes nothing, and the teardown of the stack succeeds and leaves no
  bucket \<open>WebsiteBucket\<close>, whatever objects it held.
\<close>

theorem storage_resource_destroyed_with_stack:
  "\<exists>s bp. AleezaStack i props d = Inr s
     \<and> filter is_bucket (children s) = [Bucket ''WebsiteBucket'' bp]
     \<and> removalPolicy bp = DESTROY
     \<and> autoDeleteObjects bp
     \<and> retainOnDelete (WebsiteFiles_props d)
     \<and> destroy_construct (WebsiteFiles d) st = Inr st
     \<and> teardown s st = Inr (st(''WebsiteBucket'' := None))"
proof -
  have t: "teardown \<lparr>stack_id = i, stack_props = props,
          children = [website_bucket, WebsiteFiles d, webAcl, distribution]\<rparr> st
       = Inr (st(''WebsiteBucket'' := None))"
    by (cases "st ''WebsiteBucket''")
      (auto simp: teardown_def and_then_def website_bucket_def WebsiteFiles_def webAcl_def
        distribution_def website_bucket_props_def WebsiteFiles_props_def)
  show ?thesis
    using t
    by (simp add: AleezaStack_result website_bucket_def WebsiteFiles_def webAcl_def
        distribution_def website_bucket_props_def WebsiteFiles_props_def)
qed

subsection \<open>Modules\<close>

text \<open>
  C8: the entry point imports \<open>CloudFoundationProjectStack\<close> from
  \<open>../lib/cloud-foundation-project-stack\<close> and instantiates it; the import resolves to no
  file of the repository, whose only exported class is \<open>AleezaStack\<close>.
\<close>

theorem entry_point_import_unresolved:
  "(Named [''CloudFoundationProjectStack''], ''../lib/cloud-foundation-project-stack'')
       \<in> set (import_decls entry_point)
   \<and> ''CloudFoundationProjectStack'' \<in> set (instantiates entry_point)
   \<and> is_relative ''../lib/cloud-foundation-project-stack''
   \<and> resolve_import repository (file_path entry_point)
        ''../lib/cloud-foundation-project-stack'' = None
   \<and> concat (map exported_classes repository) = [''AleezaStack'']
   \<and> \<not> defines_class repository ''CloudFoundationProjectStack''"
  by (simp add: entry_point_def repository_def resolve_import_def is_relative_def
      module_candidates_def path_join_def path_normalize_def path_dirname_def split_path_def
      defines_class_def)

end
